theory Spec2Isabelle
  imports Main
begin

section \<open>Request payloads and JavaScript scalars\<close>

text \<open>
  The routers of the sensor system receive JSON bodies parsed by \<^verbatim>\<open>express.json()\<close>.
  A body is an object with distinct keys; its field values are modelled as JSON scalars
  (nested arrays and objects are outside the model). A missing field is
  \<^verbatim>\<open>undefined\<close> in JavaScript and \<open>None\<close> here. Strings are over 8-bit characters.

  A number reaches a handler as a double. It is represented by the decimal text that
  \<^verbatim>\<open>String\<close> gives for it, which determines the double: \<open>JNum ''0.5''\<close>,
  \<open>JNum ''-200''\<close>, and \<open>JNum ''1e+21''\<close> for the number that the body text
  \<^verbatim>\<open>999999999999999999999\<close> parses to. The validators and the casts of the store read
  exactly this text.
\<close>

datatype json = JNull | JBool bool | JNum string | JStr string

type_synonym payload = "(string \<times> json) list"

record request =
  req_param :: string    \<comment> \<open>\<^verbatim>\<open>req.params.id\<close>, for one route \<^verbatim>\<open>req.params.machineId\<close>\<close>
  req_body :: payload     \<comment> \<open>\<^verbatim>\<open>req.body\<close>\<close>

definition isDigit :: "char \<Rightarrow> bool" where
  "isDigit c = (c \<in> set ''0123456789'')"

definition isHexDigit :: "char \<Rightarrow> bool" where
  "isHexDigit c = (c \<in> set ''0123456789abcdefABCDEF'')"


section \<open>The validation layer (express-validator)\<close>

text \<open>
  How express-validator hands a field value to the string validators of validator.js:
  \<^verbatim>\<open>undefined\<close> and \<^verbatim>\<open>null\<close> become the empty string, everything else its
  \<^verbatim>\<open>String(...)\<close>.
\<close>

fun toString :: "json option \<Rightarrow> string" where
  "toString None = []"
| "toString (Some JNull) = []"
| "toString (Some (JBool b)) = (if b then ''true'' else ''false'')"
| "toString (Some (JNum r)) = r"
| "toString (Some (JStr s)) = s"

definition stripSign :: "string \<Rightarrow> string" where
  "stripSign s = (case s of [] \<Rightarrow> [] | c # r \<Rightarrow> if c = CHR ''+'' \<or> c = CHR ''-'' then r else s)"

text \<open>validator.js \<^verbatim>\<open>isNumeric\<close>: the regular expression \<^verbatim>\<open>^[+-]?([0-9]*[.])?[0-9]+$\<close>.\<close>

definition numericRegex :: "string \<Rightarrow> bool" where
  "numericRegex s =
     (let t = stripSign s; a = takeWhile isDigit t
      in case dropWhile isDigit t of
           [] \<Rightarrow> a \<noteq> []
         | c # f \<Rightarrow> c = CHR ''.'' \<and> f \<noteq> [] \<and> list_all isDigit f)"

text \<open>
  validator.js \<^verbatim>\<open>isHexadecimal\<close>: the regular expression \<^verbatim>\<open>^(0x|0h)?[0-9A-F]+$\<close>,
  case-insensitive; \<^verbatim>\<open>isMongoId\<close> asks for a hexadecimal string of length 24.
\<close>

definition hexDigits :: "string \<Rightarrow> bool" where
  "hexDigits s = (s \<noteq> [] \<and> list_all isHexDigit s)"

definition hexadecimalRegex :: "string \<Rightarrow> bool" where
  "hexadecimalRegex s =
     (hexDigits s \<or> (take 2 s \<in> set [''0x'', ''0X'', ''0h'', ''0H''] \<and> hexDigits (drop 2 s)))"

datatype validator = IsString | IsNumeric | IsMongoId

fun passes :: "validator \<Rightarrow> json option \<Rightarrow> bool" where
  "passes IsString v = (case v of Some (JStr s) \<Rightarrow> True | _ \<Rightarrow> False)"
| "passes IsNumeric v = numericRegex (toString v)"
| "passes IsMongoId v = (hexadecimalRegex (toString v) \<and> length (toString v) = 24)"

datatype location = Body | Params

record chain =
  loc :: location
  fld :: string
  opt :: bool
  tests :: "validator list"

definition body :: "string \<Rightarrow> chain" where
  "body f = \<lparr>loc = Body, fld = f, opt = False, tests = []\<rparr>"

definition param :: "string \<Rightarrow> chain" where
  "param f = \<lparr>loc = Params, fld = f, opt = False, tests = []\<rparr>"

definition optional :: "chain \<Rightarrow> chain" where
  "optional c = c\<lparr>opt := True\<rparr>"

definition isString :: "chain \<Rightarrow> chain" where
  "isString c = c\<lparr>tests := tests c @ [IsString]\<rparr>"

definition isNumeric :: "chain \<Rightarrow> chain" where
  "isNumeric c = c\<lparr>tests := tests c @ [IsNumeric]\<rparr>"

definition isMongoId :: "chain \<Rightarrow> chain" where
  "isMongoId c = c\<lparr>tests := tests c @ [IsMongoId]\<rparr>"

text \<open>One entry of \<^verbatim>\<open>errors.array()\<close>.\<close>

record field_error =
  err_location :: location
  err_path :: string
  err_value :: "json option"
  err_msg :: string

definition selectField :: "request \<Rightarrow> chain \<Rightarrow> json option" where
  "selectField req c =
     (case loc c of
        Body \<Rightarrow> map_of (req_body req) (fld c)
      | Params \<Rightarrow> Some (JStr (req_param req)))"

text \<open>
  Running one chain: \<^verbatim>\<open>optional()\<close> skips the tests of a field that is
  \<^verbatim>\<open>undefined\<close>; every failing test adds an error with the default message.
\<close>

definition runChain :: "request \<Rightarrow> chain \<Rightarrow> field_error list" where
  "runChain req c =
     (let v = selectField req c
      in if opt c \<and> v = None then []
         else map (\<lambda>t. \<lparr>err_location = loc c, err_path = fld c, err_value = v,
                        err_msg = ''Invalid value''\<rparr>)
                  (filter (\<lambda>t. \<not> passes t v) (tests c)))"

definition validationResult :: "chain list \<Rightarrow> request \<Rightarrow> field_error list" where
  "validationResult cs req = concat (map (runChain req) cs)"


section \<open>Documents and casting (mongoose)\<close>

text \<open>
  The routers reach the store through mongoose models. What the library does for them is
  modelled after its documented behaviour (mongoose 7 and later, whose driver accepts
  as the string form of an identifier exactly 24 hexadecimal digits): casting by schema
  type, strict schemas, defaults, validation and middleware on \<^verbatim>\<open>save\<close>, and the query
  functions the routers call. The version key \<^verbatim>\<open>__v\<close> that mongoose adds to a document
  and update operators (keys that start with \<^verbatim>\<open>$\<close>) are outside the model.

  A stored number is either a number of the payload, kept by its decimal text, or
  \<^verbatim>\<open>Number(s)\<close> of a numeric string \<open>s\<close>; no router inspects the value, so the
  latter is kept by its literal.
  Dates are milliseconds since the epoch, object identifiers the 96-bit value of their
  24 hexadecimal digits.
\<close>

datatype jsnumber = Num string | NumberOf string

datatype bson = BNull | BStr string | BNum jsnumber | BDate int | BOid nat

type_synonym document = "(string \<times> bson) list"

fun setField :: "string \<Rightarrow> bson \<Rightarrow> document \<Rightarrow> document" where
  "setField k v [] = [(k, v)]"
| "setField k v ((k', v') # d) = (if k' = k then (k, v) # d else (k', v') # setField k v d)"

text \<open>\<^verbatim>\<open>value.toString()\<close> of a scalar.\<close>

fun valueToString :: "json \<Rightarrow> string" where
  "valueToString JNull = ''null''"
| "valueToString (JBool b) = (if b then ''true'' else ''false'')"
| "valueToString (JNum r) = r"
| "valueToString (JStr s) = s"

text \<open>
  Whether \<^verbatim>\<open>Number(s)\<close> is \<^verbatim>\<open>NaN\<close>: the \<^verbatim>\<open>StringNumericLiteral\<close> grammar of
  ECMAScript over ASCII (white space is trimmed, the empty string is 0).
\<close>

definition isWhiteSpace :: "char \<Rightarrow> bool" where
  "isWhiteSpace c = (c \<in> set [CHR 0x09, CHR 0x0A, CHR 0x0B, CHR 0x0C, CHR 0x0D, CHR '' ''])"

definition trim :: "string \<Rightarrow> string" where
  "trim s = rev (dropWhile isWhiteSpace (rev (dropWhile isWhiteSpace s)))"

definition decimalDigits :: "string \<Rightarrow> bool" where
  "decimalDigits s = (s \<noteq> [] \<and> list_all isDigit s)"

definition exponentPart :: "string \<Rightarrow> bool" where
  "exponentPart e =
     (case e of
        [] \<Rightarrow> True
      | c # r \<Rightarrow> (c = CHR ''e'' \<or> c = CHR ''E'') \<and> decimalDigits (stripSign r))"

definition unsignedDecimalLiteral :: "string \<Rightarrow> bool" where
  "unsignedDecimalLiteral u =
     (u = ''Infinity'' \<or>
      (let a = takeWhile isDigit u
       in case dropWhile isDigit u of
            [] \<Rightarrow> a \<noteq> []
          | c # r \<Rightarrow>
              if c = CHR ''.''
              then (a \<noteq> [] \<or> takeWhile isDigit r \<noteq> []) \<and> exponentPart (dropWhile isDigit r)
              else a \<noteq> [] \<and> exponentPart (c # r)))"

definition nonDecimalIntegerLiteral :: "string \<Rightarrow> bool" where
  "nonDecimalIntegerLiteral u =
     (case u of
        c0 # c1 # r \<Rightarrow>
          c0 = CHR ''0'' \<and> r \<noteq> [] \<and>
          ((c1 \<in> set ''xX'' \<and> list_all isHexDigit r) \<or>
           (c1 \<in> set ''oO'' \<and> list_all (\<lambda>c. c \<in> set ''01234567'') r) \<or>
           (c1 \<in> set ''bB'' \<and> list_all (\<lambda>c. c \<in> set ''01'') r))
      | _ \<Rightarrow> False)"

definition numberIsNaN :: "string \<Rightarrow> bool" where
  "numberIsNaN s =
     (let t = trim s
      in \<not> (t = [] \<or> nonDecimalIntegerLiteral t \<or> unsignedDecimalLiteral (stripSign t)))"

text \<open>
  The string form of an object identifier accepted by the driver: exactly 24
  hexadecimal digits.
\<close>

definition objectIdString :: "string \<Rightarrow> bool" where
  "objectIdString s = (length s = 24 \<and> list_all isHexDigit s)"

definition hexDigitValue :: "char \<Rightarrow> nat" where
  "hexDigitValue c =
     (if c \<in> set ''0123456789'' then of_char c - 48
      else if c \<in> set ''abcdef'' then of_char c - 87
      else of_char c - 55)"

definition hexValue :: "string \<Rightarrow> nat" where
  "hexValue s = foldl (\<lambda>a c. 16 * a + hexDigitValue c) 0 s"

text \<open>
  The time value of \<^verbatim>\<open>new Date(n)\<close> for the number with the decimal text \<open>r\<close>: the
  number truncated to whole milliseconds, and no date beyond 8.64e15 milliseconds on
  either side of the epoch or for a text that is no finite number.
\<close>

definition digitsValue :: "string \<Rightarrow> nat" where
  "digitsValue s = foldl (\<lambda>a c. 10 * a + (of_char c - 48)) 0 s"

definition numberTimeValue :: "string \<Rightarrow> int option" where
  "numberTimeValue r =
     (let neg = (take 1 r = ''-'');
          u = (if neg then drop 1 r else r);
          ip = takeWhile isDigit u;
          r1 = dropWhile isDigit u;
          dot = (take 1 r1 = ''.'');
          fp = (if dot then takeWhile isDigit (drop 1 r1) else []);
          r2 = (if dot then dropWhile isDigit (drop 1 r1) else r1);
          ex = (if r2 = [] then Some 0
                else if take 2 r2 = ''e+'' \<and> decimalDigits (drop 2 r2)
                then Some (int (digitsValue (drop 2 r2)))
                else if take 2 r2 = ''e-'' \<and> decimalDigits (drop 2 r2)
                then Some (- int (digitsValue (drop 2 r2)))
                else None);
          sign = (if neg then - 1 else 1 :: int);
          m = digitsValue (ip @ fp)
      in if ip = [] \<or> (dot \<and> fp = []) then None
         else case ex of
                None \<Rightarrow> None
              | Some e \<Rightarrow>
                  if int (length fp) \<le> e
                  then (let v = m * 10 ^ nat (e - int (length fp))
                        in if v \<le> 8640000000000000 then Some (sign * int v) else None)
                  else (let p = 10 ^ nat (int (length fp) - e)
                        in if m \<le> 8640000000000000 * p then Some (sign * int (m div p))
                           else None))"

text \<open>
  The casts of the four schema types. \<open>None\<close> is a \<^verbatim>\<open>CastError\<close>. Parsing a date
  string is left to the JavaScript engine, which is a parameter.
\<close>

datatype stype = TString | TNumber | TDate | TObjectId

fun castString :: "json \<Rightarrow> bson option" where
  "castString JNull = Some BNull"
| "castString v = Some (BStr (valueToString v))"

fun castNumber :: "json \<Rightarrow> bson option" where
  "castNumber JNull = Some BNull"
| "castNumber (JStr s) =
     (if s = [] then Some BNull
      else if numberIsNaN s then None
      else Some (BNum (NumberOf s)))"
| "castNumber (JBool b) = Some (BNum (Num (if b then ''1'' else ''0'')))"
| "castNumber (JNum r) = (if r = ''NaN'' then None else Some (BNum (Num r)))"

fun castObjectId :: "json \<Rightarrow> bson option" where
  "castObjectId JNull = Some BNull"
| "castObjectId v =
     (if objectIdString (valueToString v) then Some (BOid (hexValue (valueToString v)))
      else None)"

fun castDate :: "(string \<Rightarrow> int option) \<Rightarrow> json \<Rightarrow> bson option" where
  "castDate dp JNull = Some BNull"
| "castDate dp (JBool b) = None"
| "castDate dp (JNum r) = map_option BDate (numberTimeValue r)"
| "castDate dp (JStr s) = (if s = [] then Some BNull else map_option BDate (dp s))"

fun castTo :: "(string \<Rightarrow> int option) \<Rightarrow> stype \<Rightarrow> json \<Rightarrow> bson option" where
  "castTo dp TString v = castString v"
| "castTo dp TNumber v = castNumber v"
| "castTo dp TDate v = castDate dp v"
| "castTo dp TObjectId v = castObjectId v"


section \<open>Schemas (src/models)\<close>

text \<open>
  A schema path carries the options written in the source. mongoose reads the option
  \<^verbatim>\<open>required\<close>; the option \<^verbatim>\<open>require\<close>, which most paths of the source spell
  instead, is kept as written and read by nothing.
\<close>

datatype default_value = NoDefault | DateNow

record path_spec =
  p_name :: string
  p_type :: stype
  p_required :: bool
  p_require :: bool
  p_default :: default_value

definition path :: "string \<Rightarrow> stype \<Rightarrow> path_spec" where
  "path n t = \<lparr>p_name = n, p_type = t, p_required = False, p_require = False,
                p_default = NoDefault\<rparr>"

definition required :: "bool \<Rightarrow> path_spec \<Rightarrow> path_spec" where
  "required b p = p\<lparr>p_required := b\<rparr>"

definition require :: "bool \<Rightarrow> path_spec \<Rightarrow> path_spec" where
  "require b p = p\<lparr>p_require := b\<rparr>"

definition default_now :: "path_spec \<Rightarrow> path_spec" where
  "default_now p = p\<lparr>p_default := DateNow\<rparr>"

record schema =
  paths :: "path_spec list"
  pre_save :: "int \<Rightarrow> document \<Rightarrow> document"
    \<comment> \<open>the \<^verbatim>\<open>pre('save')\<close> middleware, given the current time\<close>

definition no_hook :: "int \<Rightarrow> document \<Rightarrow> document" where
  "no_hook now d = d"

text \<open>\<^verbatim>\<open>machineSchema\<close> with its middleware \<^verbatim>\<open>this.updateDate = new Date()\<close>.\<close>

definition machine_pre_save :: "int \<Rightarrow> document \<Rightarrow> document" where
  "machine_pre_save now d = setField ''updateDate'' (BDate now) d"

definition machineSchema :: schema where
  "machineSchema =
     \<lparr>paths =
        [require True (path ''name'' TString),
         default_now (path ''createDate'' TDate),
         default_now (path ''updateDate'' TDate),
         path ''description'' TString,
         path ''companyName'' TString],
      pre_save = machine_pre_save\<rparr>"

definition sensorSchema :: schema where
  "sensorSchema =
     \<lparr>paths =
        [require True (path ''name'' TString),
         default_now (path ''createDate'' TDate),
         require True (path ''unitOfMeasurement'' TString),
         require False (path ''minValue'' TNumber),
         require False (path ''maxValue'' TNumber),
         require True (path ''machine'' TObjectId)],
      pre_save = no_hook\<rparr>"

text \<open>\<^verbatim>\<open>sensorDataSchema\<close> of src/models/sensorData.js: the reference is \<^verbatim>\<open>sensor\<close>.\<close>

definition sensorDataSchema :: schema where
  "sensorDataSchema =
     \<lparr>paths =
        [require True (path ''value'' TNumber),
         require True (path ''rawValue'' TNumber),
         default_now (path ''date'' TDate),
         require True (path ''sensor'' TObjectId)],
      pre_save = no_hook\<rparr>"

text \<open>
  The earlier \<^verbatim>\<open>sensorDataSchema\<close> kept in the history of the models: the reference
  is \<^verbatim>\<open>sensorId\<close> and the options are spelled \<^verbatim>\<open>required\<close>.
\<close>

definition sensorDataSchema_v0 :: schema where
  "sensorDataSchema_v0 =
     \<lparr>paths =
        [required True (path ''value'' TNumber),
         required True (path ''rawValue'' TNumber),
         required True (default_now (path ''date'' TDate)),
         required True (path ''sensorId'' TObjectId)],
      pre_save = no_hook\<rparr>"


section \<open>The entity store\<close>

datatype collection = Machines | Sensors | SensorDatas

record model =
  m_collection :: collection
  m_schema :: schema

definition Machine :: model where
  "Machine = \<lparr>m_collection = Machines, m_schema = machineSchema\<rparr>"

definition Sensor :: model where
  "Sensor = \<lparr>m_collection = Sensors, m_schema = sensorSchema\<rparr>"

definition SensorData :: model where
  "SensorData = \<lparr>m_collection = SensorDatas, m_schema = sensorDataSchema\<rparr>"

text \<open>
  Everything outside a handler: the three collections in store order, the clock read by
  \<^verbatim>\<open>Date.now\<close>, whether the store answers, the identifier the driver generates next,
  and the engine's parser of date strings.
\<close>

record world =
  store :: "collection \<Rightarrow> document list"
  clock :: int
  reachable :: bool
  nextId :: nat
  dateParse :: "string \<Rightarrow> int option"

definition putCollection :: "collection \<Rightarrow> document list \<Rightarrow> world \<Rightarrow> world" where
  "putCollection c ds w = w\<lparr>store := (\<lambda>c'. if c' = c then ds else store w c')\<rparr>"

datatype reason = CastFailed | Required

datatype error =
    CastError string                         \<comment> \<open>a query or update value does not cast, at this path\<close>
  | ValidationError "(string \<times> reason) list" \<comment> \<open>raised by \<^verbatim>\<open>save\<close>\<close>
  | MissingId                                \<comment> \<open>a document without \<^verbatim>\<open>_id\<close> cannot be saved\<close>
  | DuplicateKey
  | ImmutableId                              \<comment> \<open>an update would change \<^verbatim>\<open>_id\<close>\<close>
  | StoreUnreachable
  | TypeError string                         \<comment> \<open>thrown by the JavaScript engine\<close>

definition docId :: "document \<Rightarrow> bson option" where
  "docId d = map_of d ''_id''"

text \<open>Every schema has the path \<^verbatim>\<open>_id\<close>.\<close>

definition allPaths :: "schema \<Rightarrow> path_spec list" where
  "allPaths sch = path ''_id'' TObjectId # paths sch"

definition pathType :: "schema \<Rightarrow> string \<Rightarrow> stype option" where
  "pathType sch k = map_option p_type (find (\<lambda>p. p_name p = k) (allPaths sch))"

text \<open>
  \<^verbatim>\<open>new Model(req.body)\<close>. The schema is strict: only its paths are read from the
  body. A value that does not cast leaves the path unset and is remembered for
  \<^verbatim>\<open>save\<close>. A path absent from the body takes its default; \<^verbatim>\<open>_id\<close> is generated.
\<close>

record new_document =
  nd_doc :: document
  nd_cast_errors :: "string list"

fun construct :: "(string \<Rightarrow> int option) \<Rightarrow> int \<Rightarrow> nat \<Rightarrow> payload \<Rightarrow> path_spec list \<Rightarrow> new_document"
  where
  "construct dp now oid b [] = \<lparr>nd_doc = [], nd_cast_errors = []\<rparr>"
| "construct dp now oid b (p # ps) =
     (let rest = construct dp now oid b ps
      in case map_of b (p_name p) of
           Some v \<Rightarrow>
             (case castTo dp (p_type p) v of
                Some x \<Rightarrow> rest\<lparr>nd_doc := (p_name p, x) # nd_doc rest\<rparr>
              | None \<Rightarrow> rest\<lparr>nd_cast_errors := p_name p # nd_cast_errors rest\<rparr>)
         | None \<Rightarrow>
             if p_name p = ''_id'' then rest\<lparr>nd_doc := (''_id'', BOid oid) # nd_doc rest\<rparr>
             else if p_default p = DateNow
             then rest\<lparr>nd_doc := (p_name p, BDate now) # nd_doc rest\<rparr>
             else rest)"

definition Model_new :: "model \<Rightarrow> payload \<Rightarrow> world \<Rightarrow> new_document \<times> world" where
  "Model_new m b w =
     (construct (dateParse w) (clock w) (nextId w) b (allPaths (m_schema m)),
      if map_of b ''_id'' = None then w\<lparr>nextId := Suc (nextId w)\<rparr> else w)"

definition isUnset :: "document \<Rightarrow> string \<Rightarrow> bool" where
  "isUnset d k = (map_of d k = None \<or> map_of d k = Some BNull)"

definition validationErrors :: "schema \<Rightarrow> new_document \<Rightarrow> (string \<times> reason) list" where
  "validationErrors sch nd =
     map (\<lambda>k. (k, CastFailed)) (nd_cast_errors nd) @
     map (\<lambda>p. (p_name p, Required))
       (filter (\<lambda>p. p_required p \<and> p_name p \<notin> set (nd_cast_errors nd) \<and> isUnset (nd_doc nd) (p_name p))
          (paths sch))"

text \<open>
  \<^verbatim>\<open>doc.save()\<close> of a new document: validation, then the \<^verbatim>\<open>pre('save')\<close>
  middleware, then the insert at the end of the collection.
\<close>

definition Model_save :: "model \<Rightarrow> new_document \<Rightarrow> world \<Rightarrow> error + document \<times> world" where
  "Model_save m nd w =
     (let errs = validationErrors (m_schema m) nd
      in if errs \<noteq> [] then Inl (ValidationError errs)
         else
           let d = pre_save (m_schema m) (clock w) (nd_doc nd); c = m_collection m
           in case docId d of
                Some (BOid i) \<Rightarrow>
                  if \<not> reachable w then Inl StoreUnreachable
                  else if Some (BOid i) \<in> set (map docId (store w c)) then Inl DuplicateKey
                  else Inr (d, putCollection c (store w c @ [d]) w)
              | _ \<Rightarrow> Inl MissingId)"

text \<open>\<^verbatim>\<open>Model.find()\<close> and \<^verbatim>\<open>Model.find({k: v})\<close> with a string \<open>v\<close>.\<close>

definition Model_find :: "model \<Rightarrow> world \<Rightarrow> error + document list" where
  "Model_find m w = (if reachable w then Inr (store w (m_collection m)) else Inl StoreUnreachable)"

definition castQuery :: "model \<Rightarrow> world \<Rightarrow> string \<Rightarrow> string \<Rightarrow> error + bson" where
  "castQuery m w k v =
     (case pathType (m_schema m) k of
        None \<Rightarrow> Inr (BStr v)
      | Some t \<Rightarrow>
          (case castTo (dateParse w) t (JStr v) of
             None \<Rightarrow> Inl (CastError k)
           | Some x \<Rightarrow> Inr x))"

definition Model_find_by :: "model \<Rightarrow> string \<Rightarrow> string \<Rightarrow> world \<Rightarrow> error + document list" where
  "Model_find_by m k v w =
     (case castQuery m w k v of
        Inl e \<Rightarrow> Inl e
      | Inr x \<Rightarrow>
          if reachable w then Inr (filter (\<lambda>d. map_of d k = Some x) (store w (m_collection m)))
          else Inl StoreUnreachable)"



text \<open>
  \<^verbatim>\<open>Model.findByIdAndUpdate(id, req.body, { new: true })\<close>: the identifier and the
  update are cast (strictly: keys that are no schema path are dropped), then the first
  document with that identifier gets the cast fields set. No validator and no
  \<^verbatim>\<open>save\<close> middleware runs. The keys of a payload are distinct.
\<close>

fun castUpdate :: "(string \<Rightarrow> int option) \<Rightarrow> schema \<Rightarrow> payload \<Rightarrow> error + document" where
  "castUpdate dp sch [] = Inr []"
| "castUpdate dp sch ((k, v) # b) =
     (case pathType sch k of
        None \<Rightarrow> castUpdate dp sch b
      | Some t \<Rightarrow>
          (case castTo dp t v of
             None \<Rightarrow> Inl (CastError k)
           | Some x \<Rightarrow>
               (case castUpdate dp sch b of
                  Inl e \<Rightarrow> Inl e
                | Inr u \<Rightarrow> Inr ((k, x) # u))))"

definition applyUpdate :: "document \<Rightarrow> document \<Rightarrow> document" where
  "applyUpdate d u = fold (\<lambda>(k, x). setField k x) u d"

fun replaceFirst :: "('a \<Rightarrow> bool) \<Rightarrow> 'a \<Rightarrow> 'a list \<Rightarrow> 'a list" where
  "replaceFirst P y [] = []"
| "replaceFirst P y (x # xs) = (if P x then y # xs else x # replaceFirst P y xs)"

fun removeFirst :: "('a \<Rightarrow> bool) \<Rightarrow> 'a list \<Rightarrow> 'a list" where
  "removeFirst P [] = []"
| "removeFirst P (x # xs) = (if P x then xs else x # removeFirst P xs)"

definition Model_findByIdAndUpdate ::
  "model \<Rightarrow> string \<Rightarrow> payload \<Rightarrow> world \<Rightarrow> error + document option \<times> world" where
  "Model_findByIdAndUpdate m i b w =
     (case castQuery m w ''_id'' i of
        Inl e \<Rightarrow> Inl e
      | Inr x \<Rightarrow>
          (case castUpdate (dateParse w) (m_schema m) b of
             Inl e \<Rightarrow> Inl e
           | Inr u \<Rightarrow>
               if \<not> reachable w then Inl StoreUnreachable
               else
                 (let c = m_collection m
                  in (case find (\<lambda>d. docId d = Some x) (store w c) of
                        None \<Rightarrow> Inr (None, w)
                      | Some d \<Rightarrow>
                          (let d' = applyUpdate d u
                           in if docId d' \<noteq> docId d then Inl ImmutableId
                              else Inr (Some d',
                                     putCollection c
                                       (replaceFirst (\<lambda>d. docId d = Some x) d' (store w c))
                                       w))))))"

definition Model_findByIdAndDelete ::
  "model \<Rightarrow> string \<Rightarrow> world \<Rightarrow> error + document option \<times> world" where
  "Model_findByIdAndDelete m i w =
     (case castQuery m w ''_id'' i of
        Inl e \<Rightarrow> Inl e
      | Inr x \<Rightarrow>
          if \<not> reachable w then Inl StoreUnreachable
          else
            (let c = m_collection m
             in (case find (\<lambda>d. docId d = Some x) (store w c) of
                   None \<Rightarrow> Inr (None, w)
                 | Some d \<Rightarrow>
                     Inr (Some d,
                       putCollection c (removeFirst (\<lambda>d. docId d = Some x) (store w c)) w))))"


section \<open>The logger (logger.js)\<close>

text \<open>
  The module builds three winston loggers. The first two are given the format
  \<^verbatim>\<open>winston.format.json()\<close>; \<^verbatim>\<open>errorLogger\<close> is given the string \<^verbatim>\<open>'error'\<close> in
  place of a format. Writing a line applies the format of the logger to it, so a logger
  whose format is no format throws there, before anything is written. What a working
  logger writes goes to the console and to its file, which are outside the store.
\<close>

datatype log_format = Format_json | NoFormat string

record logger =
  lg_level :: string
  lg_format :: log_format
  lg_file :: string

definition infoLogger :: logger where
  "infoLogger = \<lparr>lg_level = ''info'', lg_format = Format_json, lg_file = ''./logs/info.log''\<rparr>"

definition debugLogger :: logger where
  "debugLogger =
     \<lparr>lg_level = ''debug'', lg_format = Format_json, lg_file = ''./logs/debug.log''\<rparr>"

definition errorLogger :: logger where
  "errorLogger =
     \<lparr>lg_level = ''error'', lg_format = NoFormat ''error'', lg_file = ''./logs/error.log''\<rparr>"

datatype log_line = LogText string | LogError error

definition formatTypeError :: error where
  "formatTypeError = TypeError ''this.format.transform is not a function''"

definition Logger_error :: "logger \<Rightarrow> log_line \<Rightarrow> error + unit" where
  "Logger_error lg line =
     (case lg_format lg of
        Format_json \<Rightarrow> Inr ()
      | NoFormat f \<Rightarrow> Inl formatTypeError)"


section \<open>Responses\<close>

datatype content =
    Document document
  | Documents "document list"
  | Message string              \<comment> \<open>\<^verbatim>\<open>{ message: '...' }\<close> with a literal\<close>
  | ErrorMessage error          \<comment> \<open>\<^verbatim>\<open>{ message: error.message }\<close>\<close>
  | Errors "field_error list"   \<comment> \<open>\<^verbatim>\<open>{ errors: errors.array() }\<close>\<close>

record response =
  status :: nat
  content :: content

definition respond :: "nat \<Rightarrow> content \<Rightarrow> response" where
  "respond st c = \<lparr>status = st, content = c\<rparr>"

text \<open>\<^verbatim>\<open>res.json(x)\<close> without \<^verbatim>\<open>res.status\<close> answers 200.\<close>

definition json_reply :: "content \<Rightarrow> response" where
  "json_reply c = respond 200 c"

text \<open>
  What a handler does with a request: it sends a response, or it throws before it has
  sent one. The handlers are \<^verbatim>\<open>async\<close> functions and Express does not handle their
  rejection, so in the second case the client gets no response.
\<close>

datatype outcome = Responded response | Unhandled error

definition answers :: "outcome \<Rightarrow> nat \<Rightarrow> bool" where
  "answers out st = (case out of Responded r \<Rightarrow> status r = st | Unhandled e \<Rightarrow> False)"

text \<open>
  The \<^verbatim>\<open>catch\<close> block of the handlers of the three current routers:
  \<^verbatim>\<open>errorLogger.error(...)\<close>, then \<^verbatim>\<open>res.status(st).json({ message: error.message })\<close>.
\<close>

definition catchBlock :: "nat \<Rightarrow> error \<Rightarrow> world \<Rightarrow> outcome \<times> world" where
  "catchBlock st error w =
     (case Logger_error errorLogger (LogError error) of
        Inl thrown \<Rightarrow> (Unhandled thrown, w)
      | Inr u \<Rightarrow> (Responded (respond st (ErrorMessage error)), w))"

text \<open>
  The not-found branch of the machine and sensor handlers, inside \<^verbatim>\<open>try\<close>:
  \<^verbatim>\<open>errorLogger.error(...)\<close>, then \<^verbatim>\<open>return res.status(404).json({ message: msg })\<close>.
  What the logger throws is caught by the \<^verbatim>\<open>catch\<close> block of the handler, whose status
  is \<open>st\<close>.
\<close>

definition notFoundBranch :: "nat \<Rightarrow> string \<Rightarrow> world \<Rightarrow> outcome \<times> world" where
  "notFoundBranch st msg w =
     (case Logger_error errorLogger (LogText msg) of
        Inl thrown \<Rightarrow> catchBlock st thrown w
      | Inr u \<Rightarrow> (Responded (respond 404 (Message msg)), w))"


section \<open>The machine router\<close>

definition machineRouter_post_chains :: "chain list" where
  "machineRouter_post_chains =
     [isString (body ''name''),
      isString (body ''description''),
      isString (body ''companyName'')]"

definition machineRouter_post :: "request \<Rightarrow> world \<Rightarrow> outcome \<times> world" where
  "machineRouter_post req w =
     (let errors = validationResult machineRouter_post_chains req
      in if errors \<noteq> [] then (Responded (respond 400 (Errors errors)), w)
         else
           let (machine, w') = Model_new Machine (req_body req) w
           in case Model_save Machine machine w' of
                Inr (saved, w'') \<Rightarrow> (Responded (respond 201 (Document saved)), w'')
              | Inl error \<Rightarrow> catchBlock 400 error w')"

definition machineRouter_get :: "request \<Rightarrow> world \<Rightarrow> outcome \<times> world" where
  "machineRouter_get req w =
     (case Model_find Machine w of
        Inr machines \<Rightarrow> (Responded (respond 201 (Documents machines)), w)
      | Inl error \<Rightarrow> catchBlock 500 error w)"


text \<open>
  The chains of the PATCH routes run as middleware, but the handlers never read
  \<^verbatim>\<open>validationResult(req)\<close>.
\<close>

definition machineRouter_patch_chains :: "chain list" where
  "machineRouter_patch_chains =
     [isMongoId (param ''id''),
      isString (optional (body ''name'')),
      isString (optional (body ''description'')),
      isString (optional (body ''companyName''))]"

definition machineRouter_patch_id :: "request \<Rightarrow> world \<Rightarrow> outcome \<times> world" where
  "machineRouter_patch_id req w =
     (case Model_findByIdAndUpdate Machine (req_param req) (req_body req) w of
        Inr (None, w') \<Rightarrow> notFoundBranch 400 ''Machine entry not found'' w'
      | Inr (Some machine, w') \<Rightarrow> (Responded (json_reply (Document machine)), w')
      | Inl error \<Rightarrow> catchBlock 400 error w)"

definition machineRouter_delete_id :: "request \<Rightarrow> world \<Rightarrow> outcome \<times> world" where
  "machineRouter_delete_id req w =
     (case Model_findByIdAndDelete Machine (req_param req) w of
        Inr (None, w') \<Rightarrow> notFoundBranch 500 ''Machine entry not found'' w'
      | Inr (Some machine, w') \<Rightarrow>
          (Responded (json_reply (Message ''Machine entry deleted successfully'')), w')
      | Inl error \<Rightarrow> catchBlock 500 error w)"


section \<open>The sensor router\<close>

definition sensorRouter_post_chains :: "chain list" where
  "sensorRouter_post_chains =
     [isString (body ''name''),
      isString (body ''unitOfMeasurement''),
      isNumeric (body ''minValue''),
      isNumeric (body ''maxValue''),
      isMongoId (body ''machine'')]"

definition sensorRouter_post :: "request \<Rightarrow> world \<Rightarrow> outcome \<times> world" where
  "sensorRouter_post req w =
     (let errors = validationResult sensorRouter_post_chains req
      in if errors \<noteq> [] then (Responded (respond 400 (Errors errors)), w)
         else
           let (sensor, w') = Model_new Sensor (req_body req) w
           in case Model_save Sensor sensor w' of
                Inr (saved, w'') \<Rightarrow> (Responded (respond 201 (Document saved)), w'')
              | Inl error \<Rightarrow> catchBlock 400 error w')"

definition sensorRouter_get :: "request \<Rightarrow> world \<Rightarrow> outcome \<times> world" where
  "sensorRouter_get req w =
     (case Model_find Sensor w of
        Inr sensors \<Rightarrow> (Responded (respond 201 (Documents sensors)), w)
      | Inl error \<Rightarrow> catchBlock 500 error w)"


definition sensorRouter_patch_chains :: "chain list" where
  "sensorRouter_patch_chains =
     [isString (optional (body ''name'')),
      isString (optional (body ''unitOfMeasurement'')),
      isNumeric (optional (body ''minValue'')),
      isNumeric (optional (body ''maxValue'')),
      isMongoId (optional (body ''machine''))]"

definition sensorRouter_patch_id :: "request \<Rightarrow> world \<Rightarrow> outcome \<times> world" where
  "sensorRouter_patch_id req w =
     (case Model_findByIdAndUpdate Sensor (req_param req) (req_body req) w of
        Inr (None, w') \<Rightarrow> notFoundBranch 400 ''Sensor entry not found'' w'
      | Inr (Some sensor, w') \<Rightarrow> (Responded (json_reply (Document sensor)), w')
      | Inl error \<Rightarrow> catchBlock 400 error w)"

definition sensorRouter_delete_id :: "request \<Rightarrow> world \<Rightarrow> outcome \<times> world" where
  "sensorRouter_delete_id req w =
     (case Model_findByIdAndDelete Sensor (req_param req) w of
        Inr (None, w') \<Rightarrow> notFoundBranch 500 ''Sensor entry not found'' w'
      | Inr (Some sensor, w') \<Rightarrow>
          (Responded (json_reply (Message ''Sensor entry deleted successfully'')), w')
      | Inl error \<Rightarrow> catchBlock 500 error w)"

text \<open>\<^verbatim>\<open>GET /:machineId/sensor\<close>: the sensors of a machine.\<close>

definition sensorRouter_get_machineId_sensor :: "request \<Rightarrow> world \<Rightarrow> outcome \<times> world" where
  "sensorRouter_get_machineId_sensor req w =
     (let machineId = req_param req
      in case Model_find_by Sensor ''machine'' machineId w of
           Inr sensors \<Rightarrow> (Responded (respond 200 (Documents sensors)), w)
         | Inl error \<Rightarrow> catchBlock 500 error w)"


section \<open>The sensor data router\<close>



definition sensorDataRouter_get :: "request \<Rightarrow> world \<Rightarrow> outcome \<times> world" where
  "sensorDataRouter_get req w =
     (case Model_find SensorData w of
        Inr sensorData \<Rightarrow> (Responded (json_reply (Documents sensorData)), w)
      | Inl error \<Rightarrow> catchBlock 500 error w)"


definition sensorDataRouter_patch_chains :: "chain list" where
  "sensorDataRouter_patch_chains =
     [isMongoId (param ''id''),
      isNumeric (optional (body ''value'')),
      isNumeric (optional (body ''rawValue'')),
      isMongoId (optional (body ''sensor''))]"

definition sensorDataRouter_patch_id :: "request \<Rightarrow> world \<Rightarrow> outcome \<times> world" where
  "sensorDataRouter_patch_id req w =
     (case Model_findByIdAndUpdate SensorData (req_param req) (req_body req) w of
        Inr (None, w') \<Rightarrow>
          (Responded (respond 404 (Message ''Sensor data entry not found'')), w')
      | Inr (Some sensorData, w') \<Rightarrow> (Responded (json_reply (Document sensorData)), w')
      | Inl error \<Rightarrow> catchBlock 400 error w)"

definition sensorDataRouter_delete_id :: "request \<Rightarrow> world \<Rightarrow> outcome \<times> world" where
  "sensorDataRouter_delete_id req w =
     (case Model_findByIdAndDelete SensorData (req_param req) w of
        Inr (None, w') \<Rightarrow>
          (Responded (respond 404 (Message ''Sensor data entry not found'')), w')
      | Inr (Some sensorData, w') \<Rightarrow>
          (Responded (json_reply (Message ''Sensor data entry deleted successfully'')), w')
      | Inl error \<Rightarrow> catchBlock 500 error w)"

text \<open>
  The create route of the earlier sensor data router validates \<^verbatim>\<open>sensorId\<close>. The
  earlier router does not import the logger: its \<^verbatim>\<open>catch\<close> block only responds. It
  builds its documents with the model that \<^verbatim>\<open>../models/sensorData.js\<close> exports, which
  is a parameter here.
\<close>

definition sensorDataRouter_v0_post_chains :: "chain list" where
  "sensorDataRouter_v0_post_chains =
     [isNumeric (body ''value''),
      isNumeric (body ''rawValue''),
      isMongoId (body ''sensorId'')]"

definition sensorDataRouter_v0_post :: "model \<Rightarrow> request \<Rightarrow> world \<Rightarrow> outcome \<times> world" where
  "sensorDataRouter_v0_post SensorDataModel req w =
     (let errors = validationResult sensorDataRouter_v0_post_chains req
      in if errors \<noteq> [] then (Responded (respond 400 (Errors errors)), w)
         else
           let (sensorData, w') = Model_new SensorDataModel (req_body req) w
           in case Model_save SensorDataModel sensorData w' of
                Inr (saved, w'') \<Rightarrow> (Responded (respond 201 (Document saved)), w'')
              | Inl error \<Rightarrow> (Responded (respond 400 (ErrorMessage error)), w'))"


section \<open>Scenarios\<close>

text \<open>
  The worlds and requests of the scenario of the specification: an empty store at time
  1000, the store after the machine Lathe-1 was created, and the store after the sensor
  Temp was attached to it.
\<close>

definition mkRequest :: "string \<Rightarrow> payload \<Rightarrow> request" where
  "mkRequest i b = \<lparr>req_param = i, req_body = b\<rparr>"

definition at_time :: "int \<Rightarrow> world \<Rightarrow> world" where
  "at_time t w = w\<lparr>clock := t\<rparr>"

definition world0 :: world where
  "world0 = \<lparr>store = (\<lambda>c. []), clock = 1000, reachable = True, nextId = 1,
              dateParse = (\<lambda>s. None)\<rparr>"

definition lathePayload :: payload where
  "lathePayload =
     [(''name'', JStr ''Lathe-1''), (''description'', JStr ''CNC lathe''),
      (''companyName'', JStr ''Acme'')]"

definition lathe :: document where
  "lathe =
     [(''_id'', BOid 1), (''name'', BStr ''Lathe-1''), (''createDate'', BDate 1000),
      (''updateDate'', BDate 1000), (''description'', BStr ''CNC lathe''),
      (''companyName'', BStr ''Acme'')]"

definition latheId :: string where
  "latheId = ''000000000000000000000001''"

definition world1 :: world where
  "world1 = \<lparr>store = (\<lambda>c. if c = Machines then [lathe] else []), clock = 1000,
              reachable = True, nextId = 2, dateParse = (\<lambda>s. None)\<rparr>"

definition tempPayload :: payload where
  "tempPayload =
     [(''name'', JStr ''Temp''), (''unitOfMeasurement'', JStr ''C''), (''minValue'', JNum ''0''),
      (''maxValue'', JNum ''200''), (''machine'', JStr latheId)]"

definition tempSensor :: document where
  "tempSensor =
     [(''_id'', BOid 2), (''name'', BStr ''Temp''), (''createDate'', BDate 1000),
      (''unitOfMeasurement'', BStr ''C''), (''minValue'', BNum (Num ''0'')),
      (''maxValue'', BNum (Num ''200'')), (''machine'', BOid 1)]"

definition world2 :: world where
  "world2 = \<lparr>store = (\<lambda>c. if c = Sensors then [tempSensor]
                               else if c = Machines then [lathe] else []),
              clock = 1000, reachable = True, nextId = 3, dateParse = (\<lambda>s. None)\<rparr>"



definition unboundedSensor :: request where
  "unboundedSensor =
     mkRequest []
       [(''name'', JStr ''Temp''), (''unitOfMeasurement'', JStr ''C''),
        (''machine'', JStr latheId)]"




text \<open>A reading of the sensor Temp, and create requests of the earlier router.\<close>

definition reading :: document where
  "reading =
     [(''_id'', BOid 3), (''value'', BNum (Num ''21'')), (''rawValue'', BNum (Num ''2100'')),
      (''date'', BDate 1000), (''sensor'', BOid 2)]"

definition readingId :: string where
  "readingId = ''000000000000000000000003''"

definition world3 :: world where
  "world3 = \<lparr>store = (\<lambda>c. if c = SensorDatas then [reading]
                               else if c = Sensors then [tempSensor]
                               else if c = Machines then [lathe] else []),
              clock = 1000, reachable = True, nextId = 4, dateParse = (\<lambda>s. None)\<rparr>"

definition tempId :: string where
  "tempId = ''000000000000000000000002''"

definition readingRequest_v0 :: request where
  "readingRequest_v0 =
     mkRequest []
       [(''value'', JNum ''21.5''), (''rawValue'', JStr ''2100.5''), (''sensorId'', JStr tempId)]"

definition reading_v0 :: document where
  "reading_v0 =
     [(''_id'', BOid 3), (''value'', BNum (Num ''21.5'')),
      (''rawValue'', BNum (NumberOf ''2100.5'')), (''date'', BDate 1000)]"

definition world3_v0 :: world where
  "world3_v0 = \<lparr>store = (\<lambda>c. if c = SensorDatas then [reading_v0]
                                  else if c = Sensors then [tempSensor]
                                  else if c = Machines then [lathe] else []),
                 clock = 1000, reachable = True, nextId = 4, dateParse = (\<lambda>s. None)\<rparr>"

text \<open>The same request with the field \<^verbatim>\<open>sensor\<close> added.\<close>

definition readingRequest_both :: request where
  "readingRequest_both =
     mkRequest []
       [(''value'', JNum ''21.5''), (''rawValue'', JStr ''2100.5''), (''sensorId'', JStr tempId),
        (''sensor'', JStr tempId)]"

text \<open>
  Three updates of the machine Lathe-1, at the times 2000, 3000 and 4000; the last one
  supplies \<^verbatim>\<open>updateDate\<close> itself.
\<close>

definition firstPatch :: "outcome \<times> world" where
  "firstPatch =
     machineRouter_patch_id (mkRequest latheId [(''name'', JStr ''Lathe-2'')])
       (at_time 2000 world1)"

definition secondPatch :: "outcome \<times> world" where
  "secondPatch =
     machineRouter_patch_id (mkRequest latheId [(''description'', JStr ''retrofitted'')])
       (at_time 3000 (snd firstPatch))"

definition backdatingPatch :: "outcome \<times> world" where
  "backdatingPatch =
     machineRouter_patch_id (mkRequest latheId [(''updateDate'', JNum ''0'')])
       (at_time 4000 (snd secondPatch))"

definition updateDateOf :: "outcome \<Rightarrow> bson option" where
  "updateDateOf out =
     (case out of
        Responded r \<Rightarrow> (case content r of Document d \<Rightarrow> map_of d ''updateDate'' | _ \<Rightarrow> None)
      | Unhandled e \<Rightarrow> None)"

definition invalidValue :: "string \<Rightarrow> json option \<Rightarrow> field_error" where
  "invalidValue k v =
     \<lparr>err_location = Body, err_path = k, err_value = v, err_msg = ''Invalid value''\<rparr>"


section \<open>Field specifications\<close>




text \<open>
  The fields that the validators of a route reject, and the errors array that lists
  them, one entry for each, in the order of the specification.
\<close>

definition rejected :: "(string \<times> validator) list \<Rightarrow> payload \<Rightarrow> (string \<times> validator) list" where
  "rejected spec b = filter (\<lambda>(k, t). \<not> passes t (map_of b k)) spec"

definition fieldErrors :: "(string \<times> validator) list \<Rightarrow> payload \<Rightarrow> field_error list" where
  "fieldErrors spec b = map (\<lambda>(k, t). invalidValue k (map_of b k)) (rejected spec b)"

definition machineFields :: "(string \<times> validator) list" where
  "machineFields =
     [(''name'', IsString), (''description'', IsString), (''companyName'', IsString)]"

definition sensorFields :: "(string \<times> validator) list" where
  "sensorFields =
     [(''name'', IsString), (''unitOfMeasurement'', IsString), (''minValue'', IsNumeric),
      (''maxValue'', IsNumeric), (''machine'', IsMongoId)]"


definition sensorDataFields_v0 :: "(string \<times> validator) list" where
  "sensorDataFields_v0 =
     [(''value'', IsNumeric), (''rawValue'', IsNumeric), (''sensorId'', IsMongoId)]"

text \<open>The identifier that the driver generates next is not yet in the collection.\<close>

definition freshId :: "collection \<Rightarrow> world \<Rightarrow> bool" where
  "freshId c w = (Some (BOid (nextId w)) \<notin> set (map docId (store w c)))"


section \<open>Evaluation of the validators, the logger and the store\<close>

lemmas validator_defs =
  validationResult_def runChain_def selectField_def body_def param_def optional_def
  isString_def isNumeric_def isMongoId_def

lemmas schema_defs =
  Machine_def Sensor_def SensorData_def machineSchema_def sensorSchema_def
  sensorDataSchema_def allPaths_def pathType_def path_def require_def required_def
  default_now_def

lemma castQuery_id:
  "castQuery m w ''_id'' i =
     (if objectIdString i then Inr (BOid (hexValue i)) else Inl (CastError ''_id''))"
  by (simp add: castQuery_def pathType_def allPaths_def path_def)

lemma objectIdString_latheId: "objectIdString latheId"
  by (simp add: latheId_def objectIdString_def isHexDigit_def)

lemma hexValue_latheId: "hexValue latheId = 1"
  by (simp add: latheId_def hexValue_def hexDigitValue_def)

lemma objectIdString_tempId: "objectIdString tempId"
  by (simp add: tempId_def objectIdString_def isHexDigit_def)

lemma hexValue_tempId: "hexValue tempId = 2"
  by (simp add: tempId_def hexValue_def hexDigitValue_def)

text \<open>
  The logger of the routers throws on every line, so a handler that reaches its
  \<^verbatim>\<open>catch\<close> block, or the not-found branch of the machine and sensor routers, sends
  no response.
\<close>

lemma errorLogger_throws: "Logger_error errorLogger line = Inl formatTypeError"
  by (simp add: Logger_error_def errorLogger_def)

lemma catchBlock_throws: "catchBlock st error w = (Unhandled formatTypeError, w)"
  by (simp add: catchBlock_def errorLogger_throws)

lemma notFoundBranch_throws: "notFoundBranch st msg w = (Unhandled formatTypeError, w)"
  by (simp add: notFoundBranch_def errorLogger_throws catchBlock_throws)




section \<open>Lookup by identifier\<close>





section \<open>Listing a collection\<close>

text \<open>
  Claim C5, evaluated on the store that holds the machine Lathe-1 and the sensor Temp:
  the read succeeds and \<^verbatim>\<open>GET /machine\<close> and \<^verbatim>\<open>GET /sensor\<close> return all documents
  of the collection, but with status 201 where the claim and the router's own
  documentation say 200. \<^verbatim>\<open>GET /sensor-data\<close> answers 200.
\<close>

theorem list_answers_201:
  "machineRouter_get (mkRequest [] []) world2 =
     (Responded (respond 201 (Documents [lathe])), world2) \<and>
   sensorRouter_get (mkRequest [] []) world2 =
     (Responded (respond 201 (Documents [tempSensor])), world2) \<and>
   \<not> answers (fst (machineRouter_get (mkRequest [] []) world2)) 200 \<and>
   \<not> answers (fst (sensorRouter_get (mkRequest [] []) world2)) 200 \<and>
   answers (fst (sensorDataRouter_get (mkRequest [] []) world2)) 200"
  by (simp add: machineRouter_get_def sensorRouter_get_def sensorDataRouter_get_def
      Model_find_def Machine_def Sensor_def SensorData_def world2_def respond_def
      json_reply_def answers_def)


section \<open>Creating a machine\<close>

text \<open>
  Claim C4, evaluated at the payload \<^verbatim>\<open>{name: "Lathe-1"}\<close>: the chains of
  \<^verbatim>\<open>POST /machine\<close> test \<^verbatim>\<open>description\<close> and \<^verbatim>\<open>companyName\<close> without
  \<^verbatim>\<open>optional()\<close>, so the payload is rejected with 400 and one error for each of the
  two omitted fields, and nothing is persisted.
\<close>

theorem machine_post_name_only_rejected:
  "machineRouter_post (mkRequest [] [(''name'', JStr ''Lathe-1'')]) world0 =
     (Responded
        (respond 400
           (Errors [invalidValue ''description'' None, invalidValue ''companyName'' None])),
      world0)"
  by (simp add: machineRouter_post_def machineRouter_post_chains_def validator_defs
      mkRequest_def invalidValue_def)

section \<open>Numeric strings\<close>

text \<open>
  A string that the validator \<^verbatim>\<open>isNumeric\<close> accepts is a numeric literal for
  \<^verbatim>\<open>Number\<close>, so the cast of mongoose to \<^verbatim>\<open>Number\<close> succeeds on every value that the
  validator accepts.
\<close>

lemma dropWhile_unchanged: "s \<noteq> [] \<Longrightarrow> \<not> P (hd s) \<Longrightarrow> dropWhile P s = s"
  by (cases s) auto

lemma trim_id:
  "s \<noteq> [] \<Longrightarrow> \<not> isWhiteSpace (hd s) \<Longrightarrow> \<not> isWhiteSpace (last s) \<Longrightarrow> trim s = s"
  by (simp add: trim_def dropWhile_unchanged hd_rev)

lemma digit_not_space: "isDigit c \<Longrightarrow> \<not> isWhiteSpace c"
  by (auto simp add: isDigit_def isWhiteSpace_def)

lemma numericRegex_literal:
  assumes "numericRegex s"
  shows "unsignedDecimalLiteral (stripSign s)"
proof (cases "dropWhile isDigit (stripSign s)")
  case Nil
  from assms show ?thesis
    unfolding numericRegex_def unsignedDecimalLiteral_def Let_def Nil by simp
next
  case (Cons c f)
  with assms have c: "c = CHR ''.''" and f: "f \<noteq> []" "list_all isDigit f"
    by (simp_all add: numericRegex_def)
  from f have tw: "takeWhile isDigit f = f" and dw: "dropWhile isDigit f = []"
    by (simp_all add: list_all_iff)
  from f show ?thesis
    unfolding unsignedDecimalLiteral_def Let_def Cons c by (simp add: tw dw exponentPart_def)
qed

lemma numericRegex_unsigned:
  assumes "numericRegex s"
  shows "stripSign s \<noteq> [] \<and> \<not> isWhiteSpace (hd (stripSign s)) \<and>
         \<not> isWhiteSpace (last (stripSign s))"
proof (cases "dropWhile isDigit (stripSign s)")
  case Nil
  from assms have "takeWhile isDigit (stripSign s) \<noteq> []"
    unfolding numericRegex_def Let_def Nil by simp
  then have ne: "stripSign s \<noteq> []" by auto
  from Nil have "\<forall>c \<in> set (stripSign s). isDigit c" by simp
  with ne show ?thesis by (simp add: digit_not_space)
next
  case (Cons c f)
  with assms have c: "c = CHR ''.''" and f: "f \<noteq> []" "list_all isDigit f"
    by (simp_all add: numericRegex_def)
  have t: "stripSign s = takeWhile isDigit (stripSign s) @ c # f"
    using Cons takeWhile_dropWhile_id [of isDigit "stripSign s"] by simp
  have dot: "\<not> isWhiteSpace (CHR ''.'')" by (simp add: isWhiteSpace_def)
  have h: "\<not> isWhiteSpace (hd (stripSign s))"
  proof (cases "takeWhile isDigit (stripSign s)")
    case Nil
    with t c dot show ?thesis by simp
  next
    case (Cons a as)
    then have "a \<in> set (takeWhile isDigit (stripSign s))" by simp
    then have "isDigit a" by (rule set_takeWhileD [THEN conjunct2])
    moreover have "hd (stripSign s) = a" using t Cons by (metis append_Cons list.sel(1))
    ultimately show ?thesis by (simp add: digit_not_space)
  qed
  have "last (stripSign s) = last f" using t f by (metis last_appendR last_ConsR list.discI)
  moreover have "isDigit (last f)" using f by (simp add: list_all_iff)
  ultimately have "\<not> isWhiteSpace (last (stripSign s))" by (simp add: digit_not_space)
  with t h show ?thesis by (metis append_is_Nil_conv list.discI)
qed

lemma stripSign_shape:
  assumes "stripSign s \<noteq> []" and "\<not> isWhiteSpace (hd (stripSign s))"
    and "\<not> isWhiteSpace (last (stripSign s))"
  shows "s \<noteq> [] \<and> \<not> isWhiteSpace (hd s) \<and> \<not> isWhiteSpace (last s)"
  using assms by (cases s) (auto simp add: stripSign_def isWhiteSpace_def split: if_splits)

lemma numericRegex_number: "numericRegex s \<Longrightarrow> s \<noteq> [] \<and> \<not> numberIsNaN s"
  using numericRegex_unsigned [of s] stripSign_shape [of s] numericRegex_literal [of s]
  by (simp add: numberIsNaN_def trim_id)

lemma numericRegex_not_NaN: "\<not> numericRegex ''NaN''"
  by (simp add: numericRegex_def stripSign_def isDigit_def)

lemma castNumber_numeric:
  "passes IsNumeric (Some v) \<Longrightarrow> \<exists>x. castNumber v = Some (BNum x)"
proof (cases v)
  case (JNum r)
  assume "passes IsNumeric (Some v)"
  with JNum numericRegex_not_NaN have "r \<noteq> ''NaN''" by auto
  with JNum show ?thesis by simp
next
  case (JStr s)
  assume "passes IsNumeric (Some v)"
  with JStr numericRegex_number [of s] show ?thesis by simp
qed (simp_all add: numericRegex_def stripSign_def isDigit_def)

lemma absent_key: "fst ` set b \<subseteq> K \<Longrightarrow> k \<notin> K \<Longrightarrow> map_of b k = None"
  by (auto simp add: map_of_eq_None_iff)


lemma objectIdString_passes: "objectIdString m \<Longrightarrow> passes IsMongoId (Some (JStr m))"
  by (auto simp add: objectIdString_def hexadecimalRegex_def hexDigits_def)



section \<open>Rejected create requests\<close>

lemma validationResult_machine:
  "validationResult machineRouter_post_chains req = fieldErrors machineFields (req_body req)"
  by (simp add: machineRouter_post_chains_def validator_defs fieldErrors_def rejected_def
      machineFields_def invalidValue_def)

lemma validationResult_sensor:
  "validationResult sensorRouter_post_chains req = fieldErrors sensorFields (req_body req)"
  by (simp add: sensorRouter_post_chains_def validator_defs fieldErrors_def rejected_def
      sensorFields_def invalidValue_def)


lemma validationResult_sensorData_v0:
  "validationResult sensorDataRouter_v0_post_chains req =
     fieldErrors sensorDataFields_v0 (req_body req)"
  by (simp add: sensorDataRouter_v0_post_chains_def validator_defs fieldErrors_def
      rejected_def sensorDataFields_v0_def invalidValue_def)








lemma abc_is_NaN: "numberIsNaN ''abc''"
  by (simp add: numberIsNaN_def trim_def isWhiteSpace_def nonDecimalIntegerLiteral_def
      unsignedDecimalLiteral_def stripSign_def isDigit_def)




section \<open>The sensors of a machine\<close>

lemma find_by_machine:
  "Model_find_by Sensor ''machine'' i w =
     (if \<not> objectIdString i then Inl (CastError ''machine'')
      else if reachable w
      then Inr (filter (\<lambda>d. map_of d ''machine'' = Some (BOid (hexValue i))) (store w Sensors))
      else Inl StoreUnreachable)"
  by (simp add: Model_find_by_def castQuery_def schema_defs)






section \<open>Deleting a machine\<close>

lemma removeFirst_length:
  "find P xs = Some d \<Longrightarrow> Suc (length (removeFirst P xs)) = length xs"
  by (induction xs) (auto split: if_splits)

lemma removeFirst_keeps: "x \<in> set xs \<Longrightarrow> \<not> P x \<Longrightarrow> x \<in> set (removeFirst P xs)"
  by (induction xs) auto

lemma delete_cases:
  "Model_findByIdAndDelete m i w = Inr (Some d, w') \<Longrightarrow>
     objectIdString i \<and> reachable w \<and>
     find (\<lambda>d. docId d = Some (BOid (hexValue i))) (store w (m_collection m)) = Some d \<and>
     w' = putCollection (m_collection m)
            (removeFirst (\<lambda>d. docId d = Some (BOid (hexValue i))) (store w (m_collection m))) w"
  by (auto simp add: Model_findByIdAndDelete_def castQuery_id Let_def
      split: if_splits option.splits)

text \<open>
  Claim C9. When \<^verbatim>\<open>DELETE /machine/:id\<close> succeeds (status 200), the machine collection
  loses exactly one document, the first one with that identifier, and keeps every
  machine with another identifier; the sensor and sensor data collections are
  unchanged; the sensors that refer to the deleted machine are still returned by
  \<^verbatim>\<open>GET /sensor/:machineId/sensor\<close> for that identifier.
\<close>

theorem machine_delete_keeps_sensors:
  assumes "machineRouter_delete_id req w = (Responded r, w')" and "status r = 200"
  shows "store w' Sensors = store w Sensors \<and>
         store w' SensorDatas = store w SensorDatas \<and>
         store w' Machines =
           removeFirst (\<lambda>d. docId d = Some (BOid (hexValue (req_param req))))
             (store w Machines) \<and>
         Suc (length (store w' Machines)) = length (store w Machines) \<and>
         (\<forall>d \<in> set (store w Machines).
            docId d \<noteq> Some (BOid (hexValue (req_param req))) \<longrightarrow> d \<in> set (store w' Machines)) \<and>
         sensorRouter_get_machineId_sensor req w' =
           (Responded
              (respond 200
                 (Documents
                    (filter (\<lambda>d. map_of d ''machine'' = Some (BOid (hexValue (req_param req))))
                       (store w Sensors)))),
            w')"
proof -
  from assms obtain d
    where "Model_findByIdAndDelete Machine (req_param req) w = Inr (Some d, w')"
    by (auto simp add: machineRouter_delete_id_def respond_def json_reply_def
        notFoundBranch_throws catchBlock_throws
        split: sum.splits option.splits prod.splits)
  from delete_cases [OF this] show ?thesis
    by (simp add: removeFirst_length removeFirst_keeps sensorRouter_get_machineId_sensor_def
        find_by_machine putCollection_def Machine_def Let_def)
qed

theorem machine_delete_keeps_sensors_witness:
  "machineRouter_delete_id (mkRequest latheId []) world2 =
     (Responded (json_reply (Message ''Machine entry deleted successfully'')),
      putCollection Machines [] world2) \<and>
   status (json_reply (Message ''Machine entry deleted successfully'')) = 200 \<and>
   store (putCollection Machines [] world2) Machines = [] \<and>
   store (putCollection Machines [] world2) Sensors = [tempSensor] \<and>
   sensorRouter_get_machineId_sensor (mkRequest latheId []) (putCollection Machines [] world2) =
     (Responded (respond 200 (Documents [tempSensor])), putCollection Machines [] world2)"
proof -
  have a: "machineRouter_delete_id (mkRequest latheId []) world2 =
     (Responded (json_reply (Message ''Machine entry deleted successfully'')),
      putCollection Machines [] world2)"
    by (simp add: machineRouter_delete_id_def Model_findByIdAndDelete_def castQuery_id
        mkRequest_def objectIdString_latheId hexValue_latheId world2_def Machine_def
        lathe_def docId_def Let_def)
  have b: "status (json_reply (Message ''Machine entry deleted successfully'')) = 200"
    by (simp add: json_reply_def respond_def)
  from machine_delete_keeps_sensors [OF a b] a b show ?thesis
    by (simp add: mkRequest_def hexValue_latheId world2_def tempSensor_def lathe_def
        docId_def putCollection_def)
qed


section \<open>Creating a sensor\<close>

text \<open>
  The numeric check of the route is the pattern of \<^verbatim>\<open>isNumeric\<close> on the text of the
  value: an optional sign, digits, and an optional fraction. A number or a string in
  exponent notation does not pass it.
\<close>

lemma numeric_examples:
  "passes IsNumeric (Some (JNum ''0'')) \<and> passes IsNumeric (Some (JNum ''200'')) \<and>
   passes IsNumeric (Some (JNum ''21.5'')) \<and> passes IsNumeric (Some (JStr ''2100.5'')) \<and>
   \<not> passes IsNumeric (Some (JNum ''1e+21'')) \<and> \<not> passes IsNumeric (Some (JStr ''1e3''))"
  by (simp add: numericRegex_def stripSign_def isDigit_def)

lemma sensor_post_accepts:
  assumes keys: "fst ` set (req_body req) \<subseteq>
        {''name'', ''unitOfMeasurement'', ''minValue'', ''maxValue'', ''machine''}"
    and n: "map_of (req_body req) ''name'' = Some (JStr n)"
    and u: "map_of (req_body req) ''unitOfMeasurement'' = Some (JStr u)"
    and lo: "map_of (req_body req) ''minValue'' = Some lo" "passes IsNumeric (Some lo)"
    and hi: "map_of (req_body req) ''maxValue'' = Some hi" "passes IsNumeric (Some hi)"
    and m: "map_of (req_body req) ''machine'' = Some (JStr m)" "objectIdString m"
    and w: "reachable w" "freshId Sensors w"
  shows "\<exists>x y d. castNumber lo = Some (BNum x) \<and> castNumber hi = Some (BNum y) \<and>
           d = [(''_id'', BOid (nextId w)), (''name'', BStr n), (''createDate'', BDate (clock w)),
                (''unitOfMeasurement'', BStr u), (''minValue'', BNum x), (''maxValue'', BNum y),
                (''machine'', BOid (hexValue m))] \<and>
           fst (sensorRouter_post req w) = Responded (respond 201 (Document d)) \<and>
           store (snd (sensorRouter_post req w)) Sensors = store w Sensors @ [d] \<and>
           fst (sensorRouter_get r' (snd (sensorRouter_post req w))) =
             Responded (respond 201 (Documents (store w Sensors @ [d])))"
proof -
  from castNumber_numeric [OF lo(2)] obtain x where x: "castNumber lo = Some (BNum x)" by blast
  from castNumber_numeric [OF hi(2)] obtain y where y: "castNumber hi = Some (BNum y)" by blast
  have none: "map_of (req_body req) ''_id'' = None"
    "map_of (req_body req) ''createDate'' = None"
    using keys by (simp_all add: absent_key)
  have ok: "validationResult sensorRouter_post_chains req = []"
    using n u lo hi m objectIdString_passes [OF m(2)]
    by (simp add: validationResult_sensor fieldErrors_def rejected_def sensorFields_def)
  let ?d = "[(''_id'', BOid (nextId w)), (''name'', BStr n), (''createDate'', BDate (clock w)),
             (''unitOfMeasurement'', BStr u), (''minValue'', BNum x), (''maxValue'', BNum y),
             (''machine'', BOid (hexValue m))]"
  have new: "Model_new Sensor (req_body req) w =
      (\<lparr>nd_doc = ?d, nd_cast_errors = []\<rparr>, w\<lparr>nextId := Suc (nextId w)\<rparr>)"
    using n u lo hi m none x y by (simp add: Model_new_def schema_defs)
  have save: "Model_save Sensor \<lparr>nd_doc = ?d, nd_cast_errors = []\<rparr>
        (w\<lparr>nextId := Suc (nextId w)\<rparr>) =
      Inr (?d, putCollection Sensors (store w Sensors @ [?d]) (w\<lparr>nextId := Suc (nextId w)\<rparr>))"
    using w
    by (simp add: Model_save_def validationErrors_def schema_defs no_hook_def docId_def
        freshId_def isUnset_def Let_def)
  have post: "sensorRouter_post req w =
      (Responded (respond 201 (Document ?d)),
       putCollection Sensors (store w Sensors @ [?d]) (w\<lparr>nextId := Suc (nextId w)\<rparr>))"
    by (simp add: sensorRouter_post_def ok new save)
  show ?thesis
    using x y w(1)
    by (simp add: post)
      (simp add: putCollection_def sensorRouter_get_def Model_find_def Sensor_def)
qed

lemma sensor_post_rejects_missing_bound:
  assumes "map_of (req_body req) ''minValue'' = None \<or> map_of (req_body req) ''maxValue'' = None"
  shows "sensorRouter_post req w =
           (Responded (respond 400 (Errors (fieldErrors sensorFields (req_body req)))), w) \<and>
         (map_of (req_body req) ''minValue'' = None \<longrightarrow>
            invalidValue ''minValue'' None \<in> set (fieldErrors sensorFields (req_body req))) \<and>
         (map_of (req_body req) ''maxValue'' = None \<longrightarrow>
            invalidValue ''maxValue'' None \<in> set (fieldErrors sensorFields (req_body req)))"
proof -
  have no: "\<not> passes IsNumeric None"
    by (simp add: numericRegex_def stripSign_def)
  have lo: "map_of (req_body req) ''minValue'' = None \<Longrightarrow>
      invalidValue ''minValue'' None \<in> set (fieldErrors sensorFields (req_body req))"
    using no by (simp add: fieldErrors_def rejected_def sensorFields_def)
  have hi: "map_of (req_body req) ''maxValue'' = None \<Longrightarrow>
      invalidValue ''maxValue'' None \<in> set (fieldErrors sensorFields (req_body req))"
    using no by (simp add: fieldErrors_def rejected_def sensorFields_def)
  from assms lo hi have "fieldErrors sensorFields (req_body req) \<noteq> []"
    by fastforce
  then show ?thesis
    using lo hi by (simp add: sensorRouter_post_def validationResult_sensor)
qed

text \<open>
  Claim C6, as amended. A payload for \<^verbatim>\<open>POST /sensor\<close> made of a string
  \<^verbatim>\<open>name\<close>, a string \<^verbatim>\<open>unitOfMeasurement\<close>, a \<^verbatim>\<open>machine\<close> identifier of 24
  hexadecimal digits, and a \<^verbatim>\<open>minValue\<close> and a \<^verbatim>\<open>maxValue\<close> that pass the numeric
  check of the route, is accepted on a store that answers: the response is 201 with
  the persisted document, which is appended to the sensor collection and listed from
  then on. The two bounds are required by the route: a payload that omits one of them
  is rejected with 400 and an errors array that names each omitted bound, and nothing
  is persisted.
\<close>

theorem sensor_post_requires_bounds:
  "(fst ` set (req_body ra) \<subseteq>
        {''name'', ''unitOfMeasurement'', ''minValue'', ''maxValue'', ''machine''} \<and>
    map_of (req_body ra) ''name'' = Some (JStr n) \<and>
    map_of (req_body ra) ''unitOfMeasurement'' = Some (JStr u) \<and>
    map_of (req_body ra) ''minValue'' = Some lo \<and> passes IsNumeric (Some lo) \<and>
    map_of (req_body ra) ''maxValue'' = Some hi \<and> passes IsNumeric (Some hi) \<and>
    map_of (req_body ra) ''machine'' = Some (JStr m) \<and> objectIdString m \<and>
    reachable w \<and> freshId Sensors w \<longrightarrow>
      (\<exists>x y d. castNumber lo = Some (BNum x) \<and> castNumber hi = Some (BNum y) \<and>
         d = [(''_id'', BOid (nextId w)), (''name'', BStr n), (''createDate'', BDate (clock w)),
              (''unitOfMeasurement'', BStr u), (''minValue'', BNum x), (''maxValue'', BNum y),
              (''machine'', BOid (hexValue m))] \<and>
         fst (sensorRouter_post ra w) = Responded (respond 201 (Document d)) \<and>
         store (snd (sensorRouter_post ra w)) Sensors = store w Sensors @ [d] \<and>
         fst (sensorRouter_get r' (snd (sensorRouter_post ra w))) =
           Responded (respond 201 (Documents (store w Sensors @ [d]))))) \<and>
   (map_of (req_body rb) ''minValue'' = None \<or> map_of (req_body rb) ''maxValue'' = None \<longrightarrow>
      sensorRouter_post rb w =
        (Responded (respond 400 (Errors (fieldErrors sensorFields (req_body rb)))), w) \<and>
      (map_of (req_body rb) ''minValue'' = None \<longrightarrow>
         invalidValue ''minValue'' None \<in> set (fieldErrors sensorFields (req_body rb))) \<and>
      (map_of (req_body rb) ''maxValue'' = None \<longrightarrow>
         invalidValue ''maxValue'' None \<in> set (fieldErrors sensorFields (req_body rb))))"
  using sensor_post_accepts [of ra n u lo hi m w r']
    sensor_post_rejects_missing_bound [of rb w]
  by blast

lemma rejected_unboundedSensor:
  "fieldErrors sensorFields (req_body unboundedSensor) =
     [invalidValue ''minValue'' None, invalidValue ''maxValue'' None]"
  by (simp add: fieldErrors_def rejected_def sensorFields_def unboundedSensor_def
      mkRequest_def latheId_def hexadecimalRegex_def hexDigits_def isHexDigit_def
      numericRegex_def stripSign_def)

theorem sensor_post_requires_bounds_witness:
  "fst (sensorRouter_post (mkRequest [] tempPayload) world1) =
     Responded (respond 201 (Document tempSensor)) \<and>
   store (snd (sensorRouter_post (mkRequest [] tempPayload) world1)) Sensors = [tempSensor] \<and>
   fst (sensorRouter_get (mkRequest [] []) (snd (sensorRouter_post (mkRequest [] tempPayload) world1))) =
     Responded (respond 201 (Documents [tempSensor])) \<and>
   map_of (req_body unboundedSensor) ''minValue'' = None \<and>
   sensorRouter_post unboundedSensor world1 =
     (Responded
        (respond 400 (Errors [invalidValue ''minValue'' None, invalidValue ''maxValue'' None])),
      world1)"
proof -
  let ?ra = "mkRequest [] tempPayload"
  have a: "fst ` set (req_body ?ra) \<subseteq>
        {''name'', ''unitOfMeasurement'', ''minValue'', ''maxValue'', ''machine''} \<and>
    map_of (req_body ?ra) ''name'' = Some (JStr ''Temp'') \<and>
    map_of (req_body ?ra) ''unitOfMeasurement'' = Some (JStr ''C'') \<and>
    map_of (req_body ?ra) ''minValue'' = Some (JNum ''0'') \<and>
    passes IsNumeric (Some (JNum ''0'')) \<and>
    map_of (req_body ?ra) ''maxValue'' = Some (JNum ''200'') \<and>
    passes IsNumeric (Some (JNum ''200'')) \<and>
    map_of (req_body ?ra) ''machine'' = Some (JStr latheId) \<and> objectIdString latheId \<and>
    reachable world1 \<and> freshId Sensors world1"
    using numeric_examples objectIdString_latheId
    by (simp add: mkRequest_def tempPayload_def world1_def freshId_def)
  have b: "map_of (req_body unboundedSensor) ''minValue'' = None"
    by (simp add: unboundedSensor_def mkRequest_def)
  have d: "[(''_id'', BOid (nextId world1)), (''name'', BStr ''Temp''),
            (''createDate'', BDate (clock world1)), (''unitOfMeasurement'', BStr ''C''),
            (''minValue'', BNum (Num ''0'')), (''maxValue'', BNum (Num ''200'')),
            (''machine'', BOid (hexValue latheId))] = tempSensor"
    by (simp add: world1_def tempSensor_def hexValue_latheId)
  have s: "store world1 Sensors = []"
    by (simp add: world1_def)
  from sensor_post_requires_bounds
    [where ra = ?ra and n = "''Temp''" and u = "''C''" and lo = "JNum ''0''"
       and hi = "JNum ''200''" and m = latheId and w = world1 and rb = unboundedSensor
       and r' = "mkRequest [] []"] a b
  have "fst (sensorRouter_post ?ra world1) = Responded (respond 201 (Document tempSensor))"
    and "store (snd (sensorRouter_post ?ra world1)) Sensors = [tempSensor]"
    and "fst (sensorRouter_get (mkRequest [] []) (snd (sensorRouter_post ?ra world1))) =
           Responded (respond 201 (Documents [tempSensor]))"
    and "sensorRouter_post unboundedSensor world1 =
        (Responded (respond 400 (Errors (fieldErrors sensorFields (req_body unboundedSensor)))),
         world1)"
    using d s by auto
  with b show ?thesis
    by (simp add: rejected_unboundedSensor)
qed

text \<open>
  Claim C6 as stated fails: the payload with \<^verbatim>\<open>name\<close>, \<^verbatim>\<open>unitOfMeasurement\<close> and
  \<^verbatim>\<open>machine\<close> but without the two bounds is answered with 400, not 201, and the sensor
  collection stays empty.
\<close>

theorem sensor_post_without_bounds_rejected:
  "map_of (req_body unboundedSensor) ''name'' = Some (JStr ''Temp'') \<and>
   map_of (req_body unboundedSensor) ''unitOfMeasurement'' = Some (JStr ''C'') \<and>
   map_of (req_body unboundedSensor) ''machine'' = Some (JStr latheId) \<and>
   objectIdString latheId \<and>
   fst (sensorRouter_post unboundedSensor world1) =
     Responded
       (respond 400 (Errors [invalidValue ''minValue'' None, invalidValue ''maxValue'' None])) \<and>
   \<not> answers (fst (sensorRouter_post unboundedSensor world1)) 201 \<and>
   store (snd (sensorRouter_post unboundedSensor world1)) Sensors = []"
  using objectIdString_latheId
  by (simp add: sensorRouter_post_def validationResult_sensor rejected_unboundedSensor
      respond_def answers_def)
    (simp add: unboundedSensor_def mkRequest_def world1_def)


section \<open>The earlier create route of sensor data\<close>

text \<open>
  Claim C10, as amended. A payload made of exactly the three fields that the earlier
  create route validates (\<^verbatim>\<open>value\<close> and \<^verbatim>\<open>rawValue\<close> that pass its numeric check,
  \<^verbatim>\<open>sensorId\<close> that passes its identifier check), given to the model of
  src/models/sensorData.js on a store that answers: the response is 201, and the
  document that is appended to the collection and listed from then on consists of
  \<^verbatim>\<open>_id\<close>, \<^verbatim>\<open>value\<close>, \<^verbatim>\<open>rawValue\<close> and \<^verbatim>\<open>date\<close>. It has no \<^verbatim>\<open>sensor\<close>
  reference, and \<^verbatim>\<open>sensorId\<close> is dropped because the schema has no such path. Saving
  succeeds all the same, because no path of the schema carries the option
  \<^verbatim>\<open>required\<close>.
\<close>

theorem sensorData_v0_post_drops_sensorId:
  assumes keys: "fst ` set (req_body req) \<subseteq> {''value'', ''rawValue'', ''sensorId''}"
    and v: "map_of (req_body req) ''value'' = Some v" "passes IsNumeric (Some v)"
    and r: "map_of (req_body req) ''rawValue'' = Some rv" "passes IsNumeric (Some rv)"
    and s: "map_of (req_body req) ''sensorId'' = Some sid" "passes IsMongoId (Some sid)"
    and w: "reachable w" "freshId SensorDatas w"
  shows "\<exists>x y d. castNumber v = Some (BNum x) \<and> castNumber rv = Some (BNum y) \<and>
           d = [(''_id'', BOid (nextId w)), (''value'', BNum x), (''rawValue'', BNum y),
                (''date'', BDate (clock w))] \<and>
           fst (sensorDataRouter_v0_post SensorData req w) =
             Responded (respond 201 (Document d)) \<and>
           store (snd (sensorDataRouter_v0_post SensorData req w)) SensorDatas =
             store w SensorDatas @ [d] \<and>
           fst (sensorDataRouter_get r' (snd (sensorDataRouter_v0_post SensorData req w))) =
             Responded (json_reply (Documents (store w SensorDatas @ [d]))) \<and>
           map_of d ''sensor'' = None \<and> map_of d ''sensorId'' = None \<and>
           filter p_required (paths sensorDataSchema) = []"
proof -
  from castNumber_numeric [OF v(2)] obtain x where x: "castNumber v = Some (BNum x)" by blast
  from castNumber_numeric [OF r(2)] obtain y where y: "castNumber rv = Some (BNum y)" by blast
  have none: "map_of (req_body req) ''_id'' = None" "map_of (req_body req) ''date'' = None"
    "map_of (req_body req) ''sensor'' = None"
    using keys by (simp_all add: absent_key)
  have ok: "validationResult sensorDataRouter_v0_post_chains req = []"
    using v r s
    by (simp add: validationResult_sensorData_v0 fieldErrors_def rejected_def
        sensorDataFields_v0_def)
  let ?d = "[(''_id'', BOid (nextId w)), (''value'', BNum x), (''rawValue'', BNum y),
             (''date'', BDate (clock w))]"
  have new: "Model_new SensorData (req_body req) w =
      (\<lparr>nd_doc = ?d, nd_cast_errors = []\<rparr>, w\<lparr>nextId := Suc (nextId w)\<rparr>)"
    using v r none x y by (simp add: Model_new_def schema_defs)
  have save: "Model_save SensorData \<lparr>nd_doc = ?d, nd_cast_errors = []\<rparr>
        (w\<lparr>nextId := Suc (nextId w)\<rparr>) =
      Inr (?d, putCollection SensorDatas (store w SensorDatas @ [?d])
                 (w\<lparr>nextId := Suc (nextId w)\<rparr>))"
    using w
    by (simp add: Model_save_def validationErrors_def schema_defs no_hook_def docId_def
        freshId_def isUnset_def Let_def)
  have post: "sensorDataRouter_v0_post SensorData req w =
      (Responded (respond 201 (Document ?d)),
       putCollection SensorDatas (store w SensorDatas @ [?d]) (w\<lparr>nextId := Suc (nextId w)\<rparr>))"
    by (simp add: sensorDataRouter_v0_post_def ok new save)
  have req: "filter p_required (paths sensorDataSchema) = []"
    by (simp add: schema_defs)
  show ?thesis
    using x y req w(1)
    by (simp add: post)
      (simp add: putCollection_def sensorDataRouter_get_def Model_find_def SensorData_def)
qed

lemma passes_tempId: "passes IsMongoId (Some (JStr tempId))"
  using objectIdString_passes [OF objectIdString_tempId] .

theorem sensorData_v0_post_drops_sensorId_witness:
  "fst (sensorDataRouter_v0_post SensorData readingRequest_v0 world2) =
     Responded (respond 201 (Document reading_v0)) \<and>
   store (snd (sensorDataRouter_v0_post SensorData readingRequest_v0 world2)) SensorDatas =
     [reading_v0] \<and>
   fst (sensorDataRouter_get (mkRequest [] [])
          (snd (sensorDataRouter_v0_post SensorData readingRequest_v0 world2))) =
     Responded (json_reply (Documents [reading_v0])) \<and>
   map_of reading_v0 ''sensor'' = None \<and> map_of reading_v0 ''sensorId'' = None"
proof -
  have k: "fst ` set (req_body readingRequest_v0) \<subseteq> {''value'', ''rawValue'', ''sensorId''}"
    by (simp add: readingRequest_v0_def mkRequest_def)
  have v: "map_of (req_body readingRequest_v0) ''value'' = Some (JNum ''21.5'')"
    by (simp add: readingRequest_v0_def mkRequest_def)
  have vn: "passes IsNumeric (Some (JNum ''21.5''))"
    using numeric_examples by blast
  have r: "map_of (req_body readingRequest_v0) ''rawValue'' = Some (JStr ''2100.5'')"
    by (simp add: readingRequest_v0_def mkRequest_def)
  have rn: "passes IsNumeric (Some (JStr ''2100.5''))"
    using numeric_examples by blast
  have s: "map_of (req_body readingRequest_v0) ''sensorId'' = Some (JStr tempId)"
    by (simp add: readingRequest_v0_def mkRequest_def)
  have w: "reachable world2" "freshId SensorDatas world2"
    by (simp_all add: world2_def freshId_def)
  have cr: "castNumber (JStr ''2100.5'') = Some (BNum (NumberOf ''2100.5''))"
    using numericRegex_number [of "''2100.5''"] rn by simp
  have e: "store world2 SensorDatas = []" "nextId world2 = 3" "clock world2 = 1000"
    by (simp_all add: world2_def)
  from sensorData_v0_post_drops_sensorId
    [OF k v vn r rn s passes_tempId w, of "mkRequest [] []"] cr
  show ?thesis
    by (auto simp add: e reading_v0_def)
qed

text \<open>
  Claim C10 as stated fails: a payload that the earlier route accepts may carry the
  field \<^verbatim>\<open>sensor\<close> besides \<^verbatim>\<open>sensorId\<close>, and then the persisted document has a
  \<^verbatim>\<open>sensor\<close> reference.
\<close>

theorem sensorData_v0_post_keeps_sensor:
  "validationResult sensorDataRouter_v0_post_chains readingRequest_both = [] \<and>
   fst (sensorDataRouter_v0_post SensorData readingRequest_both world2) =
     Responded (respond 201 (Document (reading_v0 @ [(''sensor'', BOid 2)]))) \<and>
   store (snd (sensorDataRouter_v0_post SensorData readingRequest_both world2)) SensorDatas =
     [reading_v0 @ [(''sensor'', BOid 2)]] \<and>
   map_of (reading_v0 @ [(''sensor'', BOid 2)]) ''sensor'' = Some (BOid 2)"
proof -
  have ok: "validationResult sensorDataRouter_v0_post_chains readingRequest_both = []"
    using numeric_examples passes_tempId
    by (simp add: validationResult_sensorData_v0 fieldErrors_def rejected_def
        sensorDataFields_v0_def readingRequest_both_def mkRequest_def)
  have nan: "\<not> numberIsNaN ''2100.5''"
    using numericRegex_number [of "''2100.5''"] numeric_examples by simp
  have post: "sensorDataRouter_v0_post SensorData readingRequest_both world2 =
      (Responded (respond 201 (Document (reading_v0 @ [(''sensor'', BOid 2)]))),
       putCollection SensorDatas [reading_v0 @ [(''sensor'', BOid 2)]]
         (world2\<lparr>nextId := Suc (nextId world2)\<rparr>))"
    using objectIdString_tempId hexValue_tempId
    by (simp add: sensorDataRouter_v0_post_def ok)
      (simp add: readingRequest_both_def mkRequest_def Model_new_def Model_save_def
        schema_defs validationErrors_def isUnset_def no_hook_def docId_def Let_def
        world2_def nan reading_v0_def)
  show ?thesis
    by (simp add: ok post) (simp add: putCollection_def reading_v0_def)
qed

text \<open>
  With the earlier schema, whose reference path is \<^verbatim>\<open>sensorId\<close>, the request with the
  three validated fields keeps the reference.
\<close>

lemma sensorData_v0_schema_keeps_sensorId:
  "fst (sensorDataRouter_v0_post
          \<lparr>m_collection = SensorDatas, m_schema = sensorDataSchema_v0\<rparr>
          readingRequest_v0 world2) =
     Responded (respond 201 (Document (reading_v0 @ [(''sensorId'', BOid 2)])))"
proof -
  have ok: "validationResult sensorDataRouter_v0_post_chains readingRequest_v0 = []"
    using numeric_examples passes_tempId
    by (simp add: validationResult_sensorData_v0 fieldErrors_def rejected_def
        sensorDataFields_v0_def readingRequest_v0_def mkRequest_def)
  have nan: "\<not> numberIsNaN ''2100.5''"
    using numericRegex_number [of "''2100.5''"] numeric_examples by simp
  show ?thesis
    using objectIdString_tempId hexValue_tempId
    by (simp add: sensorDataRouter_v0_post_def ok)
      (simp add: readingRequest_v0_def mkRequest_def Model_new_def Model_save_def
        sensorDataSchema_v0_def allPaths_def path_def required_def default_now_def
        validationErrors_def isUnset_def no_hook_def docId_def Let_def world2_def nan
        reading_v0_def)
qed


section \<open>Updating\<close>

lemmas patch_eval =
  machineRouter_patch_id_def Model_findByIdAndUpdate_def castQuery_id mkRequest_def
  objectIdString_latheId hexValue_latheId schema_defs docId_def Let_def applyUpdate_def
  putCollection_def at_time_def json_reply_def respond_def fun_eq_iff

text \<open>The scenario starts as the specification says: creating Lathe-1 answers 201.\<close>

lemma post_lathe:
  "machineRouter_post (mkRequest [] lathePayload) world0 =
     (Responded (respond 201 (Document lathe)), world1)"
  by (simp add: machineRouter_post_def validationResult_machine fieldErrors_def rejected_def
      machineFields_def lathePayload_def mkRequest_def Model_new_def Model_save_def
      schema_defs world0_def world1_def lathe_def validationErrors_def machine_pre_save_def
      docId_def Let_def putCollection_def fun_eq_iff)

lemma firstPatch_eval:
  "firstPatch =
     (Responded (json_reply (Document (setField ''name'' (BStr ''Lathe-2'') lathe))),
      putCollection Machines [setField ''name'' (BStr ''Lathe-2'') lathe]
        (at_time 2000 world1))"
  by (simp add: firstPatch_def patch_eval world1_def lathe_def)

lemma secondPatch_eval:
  "secondPatch =
     (Responded
        (json_reply
           (Document
              (setField ''description'' (BStr ''retrofitted'')
                 (setField ''name'' (BStr ''Lathe-2'') lathe)))),
      putCollection Machines
        [setField ''description'' (BStr ''retrofitted'')
           (setField ''name'' (BStr ''Lathe-2'') lathe)]
        (at_time 3000 world1))"
  by (simp add: secondPatch_def firstPatch_eval patch_eval world1_def lathe_def)

lemma timeValue_0: "numberTimeValue ''0'' = Some 0"
  by (simp add: numberTimeValue_def isDigit_def digitsValue_def Let_def)

text \<open>
  No PATCH handler reads the clock: the response to an update is the same at every
  time.
\<close>

lemma patch_ignores_clock:
  "fst (machineRouter_patch_id req (at_time t w)) = fst (machineRouter_patch_id req w)"
  by (simp add: machineRouter_patch_id_def Model_findByIdAndUpdate_def castQuery_id
      at_time_def Let_def putCollection_def notFoundBranch_throws catchBlock_throws
      split: sum.splits option.splits prod.splits)

text \<open>
  An update whose payload has no \<^verbatim>\<open>updateDate\<close> leaves the stored \<^verbatim>\<open>updateDate\<close>
  of the document as it was.
\<close>

lemma map_of_setField: "map_of (setField k v d) k' = (if k' = k then Some v else map_of d k')"
  by (induction d) auto

lemma map_of_applyUpdate: "k \<notin> fst ` set u \<Longrightarrow> map_of (applyUpdate d u) k = map_of d k"
  unfolding applyUpdate_def
  by (induction u arbitrary: d) (auto simp add: map_of_setField)

lemma castUpdate_keys: "castUpdate dp sch b = Inr u \<Longrightarrow> fst ` set u \<subseteq> fst ` set b"
proof (induction b arbitrary: u)
  case Nil
  then show ?case by simp
next
  case (Cons kv b)
  obtain k v where kv: "kv = (k, v)" by (cases kv)
  show ?case
  proof (cases "pathType sch k")
    case None
    with Cons kv show ?thesis by auto
  next
    case (Some t)
    with Cons.prems kv obtain x u' where "castUpdate dp sch b = Inr u'" "u = (k, x) # u'"
      by (auto split: option.splits sum.splits)
    with Cons.IH [of u'] kv show ?thesis by auto
  qed
qed

lemma find_in_set: "find P xs = Some d \<Longrightarrow> d \<in> set xs"
  by (induction xs) (auto split: if_splits)

lemma patch_leaves_updateDate:
  assumes "map_of (req_body req) ''updateDate'' = None"
    and "machineRouter_patch_id req w = (Responded r, w')" and "content r = Document d'"
  shows "\<exists>d \<in> set (store w Machines).
           docId d = docId d' \<and> map_of d' ''updateDate'' = map_of d ''updateDate''"
proof -
  from assms(2,3) obtain x u d where
    u: "castUpdate (dateParse w) (m_schema Machine) (req_body req) = Inr u"
    and d: "find (\<lambda>d. docId d = Some x) (store w Machines) = Some d"
    and d': "d' = applyUpdate d u" "docId d' = docId d"
    by (auto simp add: machineRouter_patch_id_def Model_findByIdAndUpdate_def Let_def
        respond_def json_reply_def Machine_def notFoundBranch_throws catchBlock_throws
        split: sum.splits option.splits prod.splits if_splits)
  from assms(1) have "''updateDate'' \<notin> fst ` set (req_body req)"
    by (simp add: map_of_eq_None_iff)
  with castUpdate_keys [OF u] have "''updateDate'' \<notin> fst ` set u" by blast
  then have "map_of d' ''updateDate'' = map_of d ''updateDate''"
    by (simp add: d' map_of_applyUpdate)
  with find_in_set [OF d] d' show ?thesis by auto
qed

text \<open>
  Claim C1, evaluated on the machine Lathe-1, created at time 1000: two successful
  updates at the times 2000 and 3000 both answer with \<^verbatim>\<open>updateDate\<close> 1000, so the
  value is not refreshed and does not increase; and an update that supplies
  \<^verbatim>\<open>updateDate: 0\<close> stores it, older than \<^verbatim>\<open>createDate\<close>.
\<close>

theorem machine_patch_keeps_updateDate:
  "answers (fst firstPatch) 200 \<and> answers (fst secondPatch) 200 \<and>
   clock (snd firstPatch) = 2000 \<and> clock (snd secondPatch) = 3000 \<and>
   updateDateOf (fst firstPatch) = Some (BDate 1000) \<and>
   updateDateOf (fst secondPatch) = Some (BDate 1000) \<and>
   answers (fst backdatingPatch) 200 \<and>
   updateDateOf (fst backdatingPatch) = Some (BDate 0) \<and>
   map_of lathe ''createDate'' = Some (BDate 1000)"
  by (simp add: backdatingPatch_def secondPatch_eval firstPatch_eval patch_eval world1_def
      lathe_def updateDateOf_def answers_def timeValue_0)

text \<open>No PATCH handler ever answers with an errors array.\<close>

lemma patch_never_reports_field_errors:
  "fst (machineRouter_patch_id req w) \<noteq> Responded (respond st (Errors es)) \<and>
   fst (sensorRouter_patch_id req w) \<noteq> Responded (respond st (Errors es)) \<and>
   fst (sensorDataRouter_patch_id req w) \<noteq> Responded (respond st (Errors es))"
  by (simp add: machineRouter_patch_id_def sensorRouter_patch_id_def
      sensorDataRouter_patch_id_def respond_def json_reply_def notFoundBranch_throws
      catchBlock_throws split: sum.splits option.splits prod.splits)

text \<open>
  Claim C2, evaluated at two requests. \<^verbatim>\<open>PATCH /sensor-data/:id\<close> with the value
  \<^verbatim>\<open>"abc"\<close>: the chain of the route records an error for \<^verbatim>\<open>value\<close>, the handler does
  not read it, the update fails in the store with a cast error, and the \<^verbatim>\<open>catch\<close>
  block throws in its logger call: no response is sent, so no 400 with an errors
  array; the document is not modified.
  \<^verbatim>\<open>PATCH /machine/:id\<close> with the name \<^verbatim>\<open>42\<close>: the chain records an error for
  \<^verbatim>\<open>name\<close>, and the handler answers 200 and stores the name \<^verbatim>\<open>"42"\<close>.
\<close>

theorem patch_ignores_validation:
  "validationResult sensorDataRouter_patch_chains
      (mkRequest readingId [(''value'', JStr ''abc'')]) =
     [invalidValue ''value'' (Some (JStr ''abc''))] \<and>
   Model_findByIdAndUpdate SensorData readingId [(''value'', JStr ''abc'')] world3 =
     Inl (CastError ''value'') \<and>
   sensorDataRouter_patch_id (mkRequest readingId [(''value'', JStr ''abc'')]) world3 =
     (Unhandled formatTypeError, world3) \<and>
   validationResult machineRouter_patch_chains (mkRequest latheId [(''name'', JNum ''42'')]) =
     [invalidValue ''name'' (Some (JNum ''42''))] \<and>
   fst (machineRouter_patch_id (mkRequest latheId [(''name'', JNum ''42'')]) world3) =
     Responded (json_reply (Document (setField ''name'' (BStr ''42'') lathe))) \<and>
   store (snd (machineRouter_patch_id (mkRequest latheId [(''name'', JNum ''42'')]) world3))
     Machines = [setField ''name'' (BStr ''42'') lathe]"
proof -
  have cast: "Model_findByIdAndUpdate SensorData readingId [(''value'', JStr ''abc'')] world3 =
      Inl (CastError ''value'')"
    using abc_is_NaN
    by (simp add: Model_findByIdAndUpdate_def castQuery_id readingId_def objectIdString_def
        isHexDigit_def schema_defs)
  have a: "validationResult sensorDataRouter_patch_chains
      (mkRequest readingId [(''value'', JStr ''abc'')]) =
     [invalidValue ''value'' (Some (JStr ''abc''))]"
    by (simp add: sensorDataRouter_patch_chains_def validator_defs mkRequest_def
        invalidValue_def readingId_def hexadecimalRegex_def hexDigits_def isHexDigit_def
        numericRegex_def stripSign_def isDigit_def)
  have b: "sensorDataRouter_patch_id (mkRequest readingId [(''value'', JStr ''abc'')]) world3 =
     (Unhandled formatTypeError, world3)"
    by (simp add: sensorDataRouter_patch_id_def mkRequest_def cast catchBlock_throws)
  have c: "validationResult machineRouter_patch_chains
      (mkRequest latheId [(''name'', JNum ''42'')]) = [invalidValue ''name'' (Some (JNum ''42''))]"
    by (simp add: machineRouter_patch_chains_def validator_defs mkRequest_def
        invalidValue_def objectIdString_passes [OF objectIdString_latheId, simplified])
  have d: "machineRouter_patch_id (mkRequest latheId [(''name'', JNum ''42'')]) world3 =
     (Responded (json_reply (Document (setField ''name'' (BStr ''42'') lathe))),
      putCollection Machines [setField ''name'' (BStr ''42'') lathe] world3)"
    by (simp add: patch_eval world3_def lathe_def)
  show ?thesis
    by (simp add: a b c cast d) (simp add: putCollection_def)
qed

end
